theory Spec2Isabelle
  imports Main
begin

section \<open>Data model of server/app/auth.go\<close>

text \<open>
  The file under verification is \<^verbatim>\<open>server/app/auth.go\<close>: the login handler, the
  first-admin handler and the authenticator middleware. Everything it imports
  (the user repository, the token issuer of package \<^verbatim>\<open>engine/auth\<close>, \<^verbatim>\<open>jwtauth\<close>,
  the \<^verbatim>\<open>rest\<close> response helpers, the clock, the uuid generator) is outside
  the file and enters the model as data or as a parameter.
  Calls to \<^verbatim>\<open>log\<close> and to \<^verbatim>\<open>auth.InitTokenAuth\<close> have no influence on any value
  the handlers return or write and are left out.
\<close>

type_synonym time = nat

text \<open>\<^verbatim>\<open>model.User\<close>, with the fields that \<^verbatim>\<open>createDefaultUser\<close> fills in.\<close>

record user =
  ID :: string
  UserName :: string
  Name :: string
  Email :: string
  Password :: string
  IsAdmin :: bool
  LastLoginAt :: "time option"

text \<open>
  Go error values. The code compares errors only with \<^verbatim>\<open>nil\<close> and with the two
  sentinels \<^verbatim>\<open>model.ErrNotFound\<close> and \<^verbatim>\<open>ErrFirstTime\<close>; every other error value is
  \<open>ErrorsNew msg\<close>, an error carrying the message \<open>msg\<close>. A nilable error is an
  \<open>error option\<close>, \<open>None\<close> being \<^verbatim>\<open>nil\<close>.
\<close>

datatype error = ErrNotFound | ErrFirstTime | ErrorsNew string

text \<open>
  A value of type \<^verbatim>\<open>interface{}\<close> as it occurs in a decoded claims map or in a JSON
  response body. A \<^verbatim>\<open>nil\<close> interface is the absence of a value (\<open>None\<close>).
  The payload of a number is never inspected by the code.
\<close>

datatype jvalue = JString string | JNumber int | JBool bool

text \<open>
  \<^verbatim>\<open>jwt.Token\<close>: the raw token string, the claims (\<^verbatim>\<open>jwt.MapClaims\<close>, a
  \<^verbatim>\<open>map[string]interface{}\<close>, here an association list read with \<open>map_of\<close>) and the
  flag \<^verbatim>\<open>Valid\<close> that the parser sets when the signature verifies and the token is
  not expired.
\<close>

record token =
  Raw :: string
  Claims :: "(string \<times> jvalue) list"
  Valid :: bool

text \<open>
  The part of \<^verbatim>\<open>context.Context\<close> that the file reads or writes: the token and the
  verification error that the \<^verbatim>\<open>jwtauth\<close> verifier stored, and the value under the
  key \<^verbatim>\<open>"user"\<close> (\<open>None\<close>: no binding; \<open>Some None\<close>: bound to a \<^verbatim>\<open>nil\<close> user).
\<close>

record Context =
  ctxToken :: "token option"
  ctxErr :: "error option"
  ctxUser :: "user option option"

text \<open>
  An HTTP request: its context, and its body as \<^verbatim>\<open>json.Decoder.Decode\<close> reads it into
  a \<^verbatim>\<open>map[string]string\<close> (\<open>None\<close> when decoding returns an error).
\<close>

record request =
  Body :: "(string \<times> string) list option"
  Ctx :: Context

text \<open>
  What a handler writes: \<^verbatim>\<open>rest.RespondWithError(w, code, message)\<close> or
  \<^verbatim>\<open>rest.RespondWithJSON(w, code, payload)\<close>.
\<close>

datatype response =
  RespondWithError nat string
| RespondWithJSON nat "(string \<times> jvalue) list"

text \<open>
  A Go call either returns or panics (nil dereference, failed type assertion).
\<close>

datatype 'a outcome = Panic | Return 'a

text \<open>
  The interface \<^verbatim>\<open>model.UserRepository\<close>, as far as the file calls it, over a store
  state \<open>'s\<close>. Results are the Go pairs. The two queries leave the store as it is;
  \<^verbatim>\<open>Put\<close> and \<^verbatim>\<open>UpdateLastLoginAt\<close> return the new store.
\<close>

record 's userRepository =
  FindByUsername :: "'s \<Rightarrow> string \<Rightarrow> user option \<times> error option"
  CountAll :: "'s \<Rightarrow> int \<times> error option"
  Put :: "'s \<Rightarrow> user \<Rightarrow> 's \<times> error option"
  UpdateLastLoginAt :: "'s \<Rightarrow> string \<Rightarrow> 's \<times> error option"

text \<open>
  What the file takes from outside besides the store: \<^verbatim>\<open>auth.CreateToken\<close> and
  \<^verbatim>\<open>auth.TouchToken\<close> (package \<^verbatim>\<open>engine/auth\<close>), \<^verbatim>\<open>consts.Version()\<close>, the string of
  the identifier drawn by \<^verbatim>\<open>uuid.NewRandom()\<close>, \<^verbatim>\<open>time.Now()\<close>, \<^verbatim>\<open>strings.Title\<close> and the
  message of \<^verbatim>\<open>model.ErrNotFound\<close>.
\<close>

record extern =
  CreateToken :: "user \<Rightarrow> string \<times> error option"
  TouchToken :: "token \<Rightarrow> string \<times> error option"
  Version :: string
  NewRandom :: string
  Now :: time
  Title :: "string \<Rightarrow> string"
  ErrNotFoundText :: string

text \<open>
  \<^verbatim>\<open>err.Error()\<close>. \<^verbatim>\<open>ErrFirstTime = errors.New("no users created")\<close> is line 24 of the
  file; the text of \<^verbatim>\<open>model.ErrNotFound\<close> is declared in package \<^verbatim>\<open>model\<close> and is the
  field \<open>ErrNotFoundText\<close> above.
\<close>

fun Error :: "extern \<Rightarrow> error \<Rightarrow> string" where
  "Error ext ErrNotFound = ErrNotFoundText ext"
| "Error ext ErrFirstTime = ''no users created''"
| "Error ext (ErrorsNew msg) = msg"

section \<open>The functions of auth.go\<close>

text \<open>Reading a \<^verbatim>\<open>map[string]string\<close>: a missing key gives the empty string.\<close>

definition index_map :: "(string \<times> string) list \<Rightarrow> string \<Rightarrow> string" where
  "index_map data k = (case map_of data k of None \<Rightarrow> [] | Some v \<Rightarrow> v)"

text \<open>Lines 70-81.\<close>

definition getCredentialsFromBody :: "request \<Rightarrow> string \<times> string \<times> error option" where
  "getCredentialsFromBody r =
     (case Body r of
        None \<Rightarrow> ([], [], Some (ErrorsNew ''Invalid request payload''))
      | Some data \<Rightarrow> (index_map data ''username'', index_map data ''password'', None))"

text \<open>
  Lines 131-147. The result is the store after the call and the pair the function
  returns. Reading \<^verbatim>\<open>u.Password\<close> panics when the repository returned neither a user
  nor an error. The error of \<^verbatim>\<open>UpdateLastLoginAt\<close> is logged and dropped.
\<close>

definition validateLogin ::
  "'s userRepository \<Rightarrow> 's \<Rightarrow> string \<Rightarrow> string \<Rightarrow> ('s \<times> user option \<times> error option) outcome" where
  "validateLogin userRepo s userName password =
     (case FindByUsername userRepo s userName of (u, err) \<Rightarrow>
        if err = Some ErrNotFound then Return (s, None, None)
        else if err \<noteq> None then Return (s, None, err)
        else (case u of
                None \<Rightarrow> Panic
              | Some usr \<Rightarrow>
                  if Password usr \<noteq> password then Return (s, None, None)
                  else (case UpdateLastLoginAt userRepo s (ID usr) of (s', err') \<Rightarrow>
                          Return (s', Some usr, None))))"

text \<open>Lines 42-68.\<close>

definition handleLogin ::
  "extern \<Rightarrow> 's userRepository \<Rightarrow> 's \<Rightarrow> string \<Rightarrow> string \<Rightarrow> ('s \<times> response) outcome" where
  "handleLogin ext ds s username password =
     (case validateLogin ds s username password of
        Panic \<Rightarrow> Panic
      | Return (s', usr, err) \<Rightarrow>
          if err \<noteq> None then
            Return (s', RespondWithError 500 ''Unknown error authentication user. Please try again'')
          else (case usr of
                  None \<Rightarrow> Return (s', RespondWithError 401 ''Invalid username or password'')
                | Some u \<Rightarrow>
                    (case CreateToken ext u of (tokenString, err') \<Rightarrow>
                       if err' \<noteq> None then
                         Return (s', RespondWithError 500 ''Unknown error authenticating user. Please try again'')
                       else
                         Return (s', RespondWithJSON 200
                           [(''message'', JString (''User '' @ [CHR 0x27] @ username @ [CHR 0x27] @ '' authenticated successfully'')),
                            (''token'', JString tokenString),
                            (''name'', JString (Name u)),
                            (''username'', JString username),
                            (''isAdmin'', JBool (IsAdmin u)),
                            (''version'', JString (Version ext))]))))"


text \<open>Lines 115-123, the user that \<^verbatim>\<open>createDefaultUser\<close> builds.\<close>

definition initialUser :: "extern \<Rightarrow> string \<Rightarrow> string \<Rightarrow> user" where
  "initialUser ext username password =
     \<lparr>ID = NewRandom ext, UserName = username, Name = Title ext username, Email = [],
      Password = password, IsAdmin = True, LastLoginAt = Some (Now ext)\<rparr>"

text \<open>
  Lines 111-129. The result is the store after \<^verbatim>\<open>Put\<close> and the error the function
  returns: the error of \<^verbatim>\<open>Put\<close> is logged, and line 128 returns \<^verbatim>\<open>nil\<close> in every case.
\<close>

definition createDefaultUser ::
  "extern \<Rightarrow> 's userRepository \<Rightarrow> 's \<Rightarrow> string \<Rightarrow> string \<Rightarrow> 's \<times> error option" where
  "createDefaultUser ext ds s username password =
     (case Put ds s (initialUser ext username password) of (s', err) \<Rightarrow> (s', None))"

text \<open>Lines 83-109, the handler that \<^verbatim>\<open>CreateAdmin\<close> returns.\<close>

definition CreateAdmin ::
  "extern \<Rightarrow> 's userRepository \<Rightarrow> 's \<Rightarrow> request \<Rightarrow> ('s \<times> response) outcome" where
  "CreateAdmin ext ds s r =
     (case getCredentialsFromBody r of (username, password, err) \<Rightarrow>
        (case err of
           Some e \<Rightarrow> Return (s, RespondWithError 422 (Error ext e))
         | None \<Rightarrow>
             (case CountAll ds s of (c, err1) \<Rightarrow>
                (case err1 of
                   Some e \<Rightarrow> Return (s, RespondWithError 500 (Error ext e))
                 | None \<Rightarrow>
                     if c > 0 then Return (s, RespondWithError 403 ''Cannot create another first admin'')
                     else (case createDefaultUser ext ds s username password of (s', err2) \<Rightarrow>
                             (case err2 of
                                Some e \<Rightarrow> Return (s', RespondWithError 500 (Error ext e))
                              | None \<Rightarrow> handleLogin ext ds s' username password))))))"

text \<open>
  \<^verbatim>\<open>jwtauth.FromContext\<close>: the token and the error stored in the context, and the
  token's claims (an empty map when there is no token).
\<close>

definition FromContext :: "Context \<Rightarrow> token option \<times> (string \<times> jvalue) list \<times> error option" where
  "FromContext ctx =
     (ctxToken ctx, (case ctxToken ctx of None \<Rightarrow> [] | Some t \<Rightarrow> Claims t), ctxErr ctx)"

text \<open>
  Lines 149-153. The assertion \<^verbatim>\<open>claims["sub"].(string)\<close> panics unless the claim is
  a string. The error of \<^verbatim>\<open>FindByUsername\<close> is dropped and whatever user pointer
  came back is bound under \<^verbatim>\<open>"user"\<close>.
\<close>

definition contextWithUser ::
  "Context \<Rightarrow> 's userRepository \<Rightarrow> 's \<Rightarrow> (string \<times> jvalue) list \<Rightarrow> Context outcome" where
  "contextWithUser ctx ds s claims =
     (case map_of claims ''sub'' of
        Some (JString userName) \<Rightarrow>
          (case FindByUsername ds s userName of (usr, err) \<Rightarrow> Return (ctx\<lparr>ctxUser := Some usr\<rparr>))
      | _ \<Rightarrow> Panic)"

text \<open>Lines 155-170.\<close>

definition getToken :: "'s userRepository \<Rightarrow> 's \<Rightarrow> Context \<Rightarrow> token option \<times> error option" where
  "getToken ds s ctx =
     (case FromContext ctx of (tok, claims, err) \<Rightarrow>
        let valid = (err = None \<and> tok \<noteq> None \<and> (case tok of None \<Rightarrow> False | Some t \<Rightarrow> Valid t));
            valid = (valid \<and> map_of claims ''sub'' \<noteq> None)
        in if valid then (tok, None)
           else (case CountAll ds s of (c, err1) \<Rightarrow>
                   let firstTime = (c = 0 \<and> err1 = None)
                   in if firstTime then (None, Some ErrFirstTime)
                      else (None, Some (ErrorsNew ''invalid authentication''))))"

text \<open>
  Lines 172-201, the handler that the middleware wraps around \<^verbatim>\<open>next\<close>. It either
  writes a response and stops, or sets the \<^verbatim>\<open>Authorization\<close> header of the response
  and calls \<^verbatim>\<open>next\<close> with the request under the new context.
\<close>

datatype verdict =
  Reject response
| Forward string Context

definition Authenticator ::
  "extern \<Rightarrow> 's userRepository \<Rightarrow> 's \<Rightarrow> request \<Rightarrow> verdict outcome" where
  "Authenticator ext ds s r =
     (case getToken ds s (Ctx r) of (tok, err) \<Rightarrow>
        if err = Some ErrFirstTime then
          Return (Reject (RespondWithJSON 401 [(''message'', JString (Error ext ErrFirstTime))]))
        else if err \<noteq> None then
          Return (Reject (RespondWithError 401 ''Not authenticated''))
        else (case tok of
                None \<Rightarrow> Panic
              | Some t \<Rightarrow>
                  (case contextWithUser (Ctx r) ds s (Claims t) of
                     Panic \<Rightarrow> Panic
                   | Return newCtx \<Rightarrow>
                       (case TouchToken ext t of (newTokenString, err') \<Rightarrow>
                          if err' \<noteq> None then
                            Return (Reject (RespondWithError 401 ''Not authenticated''))
                          else Return (Forward newTokenString newCtx)))))"

section \<open>An in-memory user store\<close>

type_synonym memStore = "user list"

text \<open>
  Modelled from the spec: the implementation of \<^verbatim>\<open>model.UserRepository\<close> (the
  persistent user store) is not among the sources. The spec describes it as a
  repository exposing find-by-username, create, count-all and update-last-login,
  with the username as case-sensitive lookup key and a last-login timestamp that
  is mutated on successful login. Here the store is the list of its users;
  \<open>now\<close> is the time that update-last-login writes.
\<close>

definition memRepo :: "time \<Rightarrow> memStore userRepository" where
  "memRepo now =
     \<lparr>FindByUsername = (\<lambda>us n. case find (\<lambda>u. UserName u = n) us of
                                  None \<Rightarrow> (None, Some ErrNotFound)
                                | Some u \<Rightarrow> (Some u, None)),
      CountAll = (\<lambda>us. (int (length us), None)),
      Put = (\<lambda>us u. (us @ [u], None)),
      UpdateLastLoginAt = (\<lambda>us i. (map (\<lambda>u. if ID u = i then u\<lparr>LastLoginAt := Some now\<rparr> else u) us, None))\<rparr>"

section \<open>Concrete stores, tokens and requests\<close>

text \<open>
  Inputs at which the theorems below are evaluated: an issuer that always signs,
  one whose refresh fails, one whose refresh returns the submitted string, stores
  whose \<^verbatim>\<open>Put\<close>, \<^verbatim>\<open>CountAll\<close> or \<^verbatim>\<open>FindByUsername\<close>
  returns an error, a verified bearer token with a chosen subject claim, a
  context without a token, a credentials request and a request to a protected
  route.
\<close>

definition ext0 :: extern where
  "ext0 = \<lparr>CreateToken = (\<lambda>u. (''jwt-for-'' @ UserName u, None)),
           TouchToken = (\<lambda>t. (''touched-'' @ Raw t, None)),
           Version = ''dev'', NewRandom = ''uuid-1'', Now = 100, Title = (\<lambda>n. n),
           ErrNotFoundText = ''data not found''\<rparr>"



definition alice :: user where
  "alice = \<lparr>ID = ''id-alice'', UserName = ''alice'', Name = ''Alice'', Email = [],
            Password = ''wonderland'', IsAdmin = False, LastLoginAt = None\<rparr>"

definition brokenPutRepo :: "time \<Rightarrow> memStore userRepository" where
  "brokenPutRepo now = (memRepo now)\<lparr>Put := (\<lambda>us u. (us, Some (ErrorsNew ''database is locked'')))\<rparr>"

definition brokenCountRepo :: "time \<Rightarrow> memStore userRepository" where
  "brokenCountRepo now = (memRepo now)\<lparr>CountAll := (\<lambda>us. (0, Some (ErrorsNew ''database is locked'')))\<rparr>"

definition brokenFindRepo :: "time \<Rightarrow> memStore userRepository" where
  "brokenFindRepo now = (memRepo now)\<lparr>FindByUsername := (\<lambda>us n. (None, Some (ErrorsNew ''database is locked'')))\<rparr>"

definition bearer :: "string \<Rightarrow> jvalue option \<Rightarrow> bool \<Rightarrow> token" where
  "bearer raw sub ok = \<lparr>Raw = raw, Claims = (case sub of None \<Rightarrow> [] | Some v \<Rightarrow> [(''sub'', v)]), Valid = ok\<rparr>"

definition verified :: "token \<Rightarrow> Context" where
  "verified t = \<lparr>ctxToken = Some t, ctxErr = None, ctxUser = None\<rparr>"

definition noToken :: Context where
  "noToken = \<lparr>ctxToken = None, ctxErr = Some (ErrorsNew ''jwtauth: no token found''), ctxUser = None\<rparr>"

definition credentials :: "string \<Rightarrow> string \<Rightarrow> request" where
  "credentials n p = \<lparr>Body = Some [(''username'', n), (''password'', p)], Ctx = \<lparr>ctxToken = None, ctxErr = None, ctxUser = None\<rparr>\<rparr>"

definition protected :: "Context \<Rightarrow> request" where
  "protected c = \<lparr>Body = None, Ctx = c\<rparr>"

section \<open>Facts shared by the proofs\<close>

lemma getToken_valid:
  "ctxErr c = None \<Longrightarrow> ctxToken c = Some t \<Longrightarrow> Valid t \<Longrightarrow> map_of (Claims t) ''sub'' \<noteq> None
   \<Longrightarrow> getToken ds s c = (Some t, None)"
  by (simp add: getToken_def FromContext_def)

lemma getToken_invalid:
  "\<not> (ctxErr c = None \<and> (\<exists>t. ctxToken c = Some t \<and> Valid t \<and> map_of (Claims t) ''sub'' \<noteq> None))
   \<Longrightarrow> getToken ds s c =
         (None, Some (if CountAll ds s = (0, None) then ErrFirstTime
                      else ErrorsNew ''invalid authentication''))"
  by (cases "ctxToken c"; cases "CountAll ds s") (auto simp add: getToken_def FromContext_def Let_def)

lemma Authenticator_rejected:
  "getToken ds s (Ctx r) = (None, Some e) \<Longrightarrow>
   Authenticator ext ds s r =
     Return (Reject (if e = ErrFirstTime then RespondWithJSON 401 [(''message'', JString ''no users created'')]
                     else RespondWithError 401 ''Not authenticated''))"
  by (simp add: Authenticator_def)

lemma Authenticator_accepted:
  "getToken ds s (Ctx r) = (Some t, None) \<Longrightarrow>
   Authenticator ext ds s r =
     (case contextWithUser (Ctx r) ds s (Claims t) of
        Panic \<Rightarrow> Panic
      | Return newCtx \<Rightarrow>
          (case TouchToken ext t of (newTokenString, err') \<Rightarrow>
             if err' \<noteq> None then Return (Reject (RespondWithError 401 ''Not authenticated''))
             else Return (Forward newTokenString newCtx)))"
  by (simp add: Authenticator_def)


lemma contextWithUser_panics:
  "map_of claims ''sub'' = Some v \<Longrightarrow> \<forall>n. v \<noteq> JString n \<Longrightarrow> contextWithUser c ds s claims = Panic"
  by (cases v) (simp_all add: contextWithUser_def)

lemma validateLogin_not_found:
  "snd (FindByUsername repo s n) = Some ErrNotFound \<Longrightarrow> validateLogin repo s n pw = Return (s, None, None)"
  by (cases "FindByUsername repo s n") (simp add: validateLogin_def)

lemma validateLogin_store_error:
  "snd (FindByUsername repo s n) = Some e \<Longrightarrow> e \<noteq> ErrNotFound \<Longrightarrow>
   validateLogin repo s n pw = Return (s, None, Some e)"
  by (cases "FindByUsername repo s n") (simp add: validateLogin_def)

lemma validateLogin_wrong_password:
  "FindByUsername repo s n = (Some u, None) \<Longrightarrow> Password u \<noteq> pw \<Longrightarrow>
   validateLogin repo s n pw = Return (s, None, None)"
  by (simp add: validateLogin_def)

lemma validateLogin_match:
  "FindByUsername repo s n = (Some u, None) \<Longrightarrow> Password u = pw \<Longrightarrow>
   validateLogin repo s n pw = Return (fst (UpdateLastLoginAt repo s (ID u)), Some u, None)"
  by (simp add: validateLogin_def split: prod.splits)

lemma validateLogin_user_returned:
  "validateLogin repo s n pw = Return (s', Some u, e) \<Longrightarrow>
   FindByUsername repo s n = (Some u, None) \<and> Password u = pw \<and> e = None
   \<and> s' = fst (UpdateLastLoginAt repo s (ID u))"
  by (auto simp add: validateLogin_def split: prod.splits if_splits option.splits)

lemma validateLogin_absent:
  "validateLogin repo s n pw = Return (s', None, e) \<Longrightarrow> s' = s"
  by (auto simp add: validateLogin_def split: prod.splits if_splits option.splits)





lemma initialUser_sel:
  "ID (initialUser ext n p) = NewRandom ext" "UserName (initialUser ext n p) = n"
  "Password (initialUser ext n p) = p" "IsAdmin (initialUser ext n p)"
  by (simp_all add: initialUser_def)

lemma memRepo_first_admin:
  "handleLogin ext (memRepo t) [initialUser ext n p] n p =
     (case CreateToken ext (initialUser ext n p) of (tokenString, err') \<Rightarrow>
        if err' \<noteq> None then
          Return ([(initialUser ext n p)\<lparr>LastLoginAt := Some t\<rparr>],
                  RespondWithError 500 ''Unknown error authenticating user. Please try again'')
        else
          Return ([(initialUser ext n p)\<lparr>LastLoginAt := Some t\<rparr>], RespondWithJSON 200
                   [(''message'', JString (''User '' @ [CHR 0x27] @ n @ [CHR 0x27] @ '' authenticated successfully'')),
                    (''token'', JString tokenString),
                    (''name'', JString (Name (initialUser ext n p))),
                    (''username'', JString n),
                    (''isAdmin'', JBool (IsAdmin (initialUser ext n p))),
                    (''version'', JString (Version ext))]))"
  by (cases "CreateToken ext (initialUser ext n p)")
    (simp add: handleLogin_def validateLogin_def memRepo_def initialUser_sel)

section \<open>The first-admin handler\<close>

text \<open>
  Claim C1 says that a failing \<^verbatim>\<open>Put\<close> of the first admin ends the request with 500
  and the store's error message, before the login flow. The caller has that
  branch (lines 103-106), but \<open>createDefaultUser\<close> returns \<^verbatim>\<open>nil\<close> whatever \<^verbatim>\<open>Put\<close>
  returned, so the branch is never taken. On an empty store whose \<^verbatim>\<open>Put\<close> fails with
  "database is locked" the handler goes on to \<open>handleLogin\<close>, which does not find
  the user and answers 401 "Invalid username or password".
\<close>

theorem CreateAdmin_ignores_Put_error:
  "snd (createDefaultUser ext ds s n p) = None
   \<and> snd (Put (brokenPutRepo 7) [] (initialUser ext0 ''admin'' ''secret''))
       = Some (ErrorsNew ''database is locked'')
   \<and> CountAll (brokenPutRepo 7) [] = (0, None)
   \<and> CreateAdmin ext0 (brokenPutRepo 7) [] (credentials ''admin'' ''secret'')
       = Return ([], RespondWithError 401 ''Invalid username or password'')"
proof (intro conjI)
  show "snd (createDefaultUser ext ds s n p) = None"
    by (simp add: createDefaultUser_def split: prod.splits)
  show "snd (Put (brokenPutRepo 7) [] (initialUser ext0 ''admin'' ''secret''))
       = Some (ErrorsNew ''database is locked'')"
    by (simp add: brokenPutRepo_def)
  show "CountAll (brokenPutRepo 7) [] = (0, None)"
    by (simp add: brokenPutRepo_def memRepo_def)
  show "CreateAdmin ext0 (brokenPutRepo 7) [] (credentials ''admin'' ''secret'')
       = Return ([], RespondWithError 401 ''Invalid username or password'')"
    by (simp add: CreateAdmin_def getCredentialsFromBody_def credentials_def index_map_def
        brokenPutRepo_def memRepo_def createDefaultUser_def handleLogin_def validateLogin_def)
qed

text \<open>
  Claim C8. Two calls of the first-admin handler in sequence on the empty
  in-memory store, each with a body that decodes, the token issuer signing the
  new user's token: the first call answers 200 with a body whose \<^verbatim>\<open>token\<close> is the
  string \<^verbatim>\<open>CreateToken\<close> returned, and leaves exactly the requested admin in the
  store; the second call answers 403 "Cannot create another first admin" and
  leaves the store as it was, so the store holds exactly one admin with the
  requested username.
\<close>

theorem CreateAdmin_twice:
  "Body r1 = Some data \<Longrightarrow> Body r2 = Some data2 \<Longrightarrow>
   snd (CreateToken ext1 (initialUser ext1 (index_map data ''username'') (index_map data ''password''))) = None \<Longrightarrow>
   (\<exists>admin body.
      admin = (initialUser ext1 (index_map data ''username'') (index_map data ''password''))\<lparr>LastLoginAt := Some t1\<rparr>
      \<and> CreateAdmin ext1 (memRepo t1) [] r1 = Return ([admin], RespondWithJSON 200 body)
      \<and> map_of body ''token''
          = Some (JString (fst (CreateToken ext1 (initialUser ext1 (index_map data ''username'') (index_map data ''password'')))))
      \<and> CreateAdmin ext2 (memRepo t2) [admin] r2
          = Return ([admin], RespondWithError 403 ''Cannot create another first admin'')
      \<and> IsAdmin admin \<and> UserName admin = index_map data ''username''
      \<and> length (filter (\<lambda>u. IsAdmin u \<and> UserName u = index_map data ''username'') [admin]) = 1)"
proof -
  let ?n = "index_map data ''username''" and ?p = "index_map data ''password''"
  let ?u0 = "initialUser ext1 ?n ?p"
  let ?admin = "?u0\<lparr>LastLoginAt := Some t1\<rparr>"
  assume b1: "Body r1 = Some data" and b2: "Body r2 = Some data2"
    and tok: "snd (CreateToken ext1 ?u0) = None"
  have put: "createDefaultUser ext1 (memRepo t1) [] ?n ?p = ([?u0], None)"
    by (simp add: createDefaultUser_def memRepo_def)
  have cnt0: "CountAll (memRepo t1) [] = (0, None)"
    by (simp add: memRepo_def)
  have first: "CreateAdmin ext1 (memRepo t1) [] r1 = handleLogin ext1 (memRepo t1) [?u0] ?n ?p"
    by (simp add: CreateAdmin_def getCredentialsFromBody_def b1 cnt0 put)
  obtain ts where ct: "CreateToken ext1 ?u0 = (ts, None)"
    using tok by (cases "CreateToken ext1 ?u0") simp
  let ?body = "[(''message'', JString (''User '' @ [CHR 0x27] @ ?n @ [CHR 0x27] @ '' authenticated successfully'')),
                    (''token'', JString ts),
                    (''name'', JString (Name ?u0)),
                    (''username'', JString ?n),
                    (''isAdmin'', JBool (IsAdmin ?u0)),
                    (''version'', JString (Version ext1))]"
  have r1: "CreateAdmin ext1 (memRepo t1) [] r1 = Return ([?admin], RespondWithJSON 200 ?body)"
    by (simp add: first memRepo_first_admin ct)
  have tk: "map_of ?body ''token'' = Some (JString (fst (CreateToken ext1 ?u0)))"
    by (simp add: ct)
  have cnt1: "CountAll (memRepo t2) [?admin] = (1, None)"
    by (simp add: memRepo_def)
  have r2: "CreateAdmin ext2 (memRepo t2) [?admin] r2
          = Return ([?admin], RespondWithError 403 ''Cannot create another first admin'')"
    by (simp add: CreateAdmin_def getCredentialsFromBody_def b2 cnt1)
  have adm: "IsAdmin ?admin \<and> UserName ?admin = ?n"
    by (simp add: initialUser_def)
  from r1 tk r2 adm show ?thesis by auto
qed

theorem CreateAdmin_twice_witness:
  "Body (credentials ''admin'' ''secret'') = Some [(''username'', ''admin''), (''password'', ''secret'')]
   \<and> Body (credentials ''eve'' ''other'') = Some [(''username'', ''eve''), (''password'', ''other'')]
   \<and> snd (CreateToken ext0 (initialUser ext0 ''admin'' ''secret'')) = None
   \<and> (\<exists>body. CreateAdmin ext0 (memRepo 7) [] (credentials ''admin'' ''secret'')
          = Return ([(initialUser ext0 ''admin'' ''secret'')\<lparr>LastLoginAt := Some 7\<rparr>], RespondWithJSON 200 body)
        \<and> map_of body ''token'' = Some (JString ''jwt-for-admin''))
   \<and> CreateAdmin ext0 (memRepo 9) [(initialUser ext0 ''admin'' ''secret'')\<lparr>LastLoginAt := Some 7\<rparr>]
        (credentials ''eve'' ''other'')
       = Return ([(initialUser ext0 ''admin'' ''secret'')\<lparr>LastLoginAt := Some 7\<rparr>],
                 RespondWithError 403 ''Cannot create another first admin'')
   \<and> UserName (initialUser ext0 ''admin'' ''secret'') = ''admin''"
proof -
  have b1: "Body (credentials ''admin'' ''secret'') = Some [(''username'', ''admin''), (''password'', ''secret'')]"
    by (simp add: credentials_def)
  have b2: "Body (credentials ''eve'' ''other'') = Some [(''username'', ''eve''), (''password'', ''other'')]"
    by (simp add: credentials_def)
  have n: "index_map [(''username'', ''admin''), (''password'', ''secret'')] ''username'' = ''admin''"
    and p: "index_map [(''username'', ''admin''), (''password'', ''secret'')] ''password'' = ''secret''"
    by (simp_all add: index_map_def)
  have tok: "snd (CreateToken ext0 (initialUser ext0 (index_map [(''username'', ''admin''), (''password'', ''secret'')] ''username'')
         (index_map [(''username'', ''admin''), (''password'', ''secret'')] ''password''))) = None"
    by (simp add: ext0_def)
  have val: "fst (CreateToken ext0 (initialUser ext0 ''admin'' ''secret'')) = ''jwt-for-admin''"
    by (simp add: ext0_def initialUser_def)
  have un: "UserName (initialUser ext0 ''admin'' ''secret'') = ''admin''"
    by (simp add: initialUser_def)
  from CreateAdmin_twice [OF b1 b2 tok, of 7 ext0 9] b1 b2 tok val un show ?thesis
    by (auto simp add: n p)
qed

section \<open>validateLogin\<close>

text \<open>
  Claim C4. When the repository reports \<^verbatim>\<open>ErrNotFound\<close> for the username,
  \<open>validateLogin\<close> returns no user and no error. When it finds a user whose stored
  password differs from the supplied one, it again returns no user and no error.
  When the lookup fails with any other error, it returns that error. It returns
  a user only if the repository found that user and the stored password equals
  the supplied one, and in that case it does return the user, with no error.
\<close>

theorem validateLogin_cases:
  "(snd (FindByUsername repo s n) = Some ErrNotFound \<longrightarrow>
      validateLogin repo s n pw = Return (s, None, None))
   \<and> (\<forall>u. FindByUsername repo s n = (Some u, None) \<and> Password u \<noteq> pw \<longrightarrow>
          validateLogin repo s n pw = Return (s, None, None))
   \<and> (\<forall>e. snd (FindByUsername repo s n) = Some e \<and> e \<noteq> ErrNotFound \<longrightarrow>
          validateLogin repo s n pw = Return (s, None, Some e))
   \<and> (\<forall>u. FindByUsername repo s n = (Some u, None) \<and> Password u = pw \<longrightarrow>
          validateLogin repo s n pw = Return (fst (UpdateLastLoginAt repo s (ID u)), Some u, None))
   \<and> (\<forall>s' u e. validateLogin repo s n pw = Return (s', Some u, e) \<longrightarrow>
          FindByUsername repo s n = (Some u, None) \<and> Password u = pw \<and> e = None)"
  using validateLogin_not_found [of repo s n pw] validateLogin_wrong_password [of repo s n _ pw]
    validateLogin_store_error [of repo s n _ pw] validateLogin_match [of repo s n _ pw]
    validateLogin_user_returned [of repo s n pw]
  by blast

theorem validateLogin_cases_witness:
  "FindByUsername (memRepo 7) [alice] ''alice'' = (Some alice, None)
   \<and> validateLogin (memRepo 7) [alice] ''alice'' ''wonderland''
       = Return ([alice\<lparr>LastLoginAt := Some 7\<rparr>], Some alice, None)
   \<and> validateLogin (memRepo 7) [alice] ''alice'' ''guess'' = Return ([alice], None, None)
   \<and> validateLogin (memRepo 7) [alice] ''bob'' ''guess'' = Return ([alice], None, None)
   \<and> validateLogin (brokenFindRepo 7) [alice] ''alice'' ''wonderland''
       = Return ([alice], None, Some (ErrorsNew ''database is locked''))"
  using validateLogin_cases [of "memRepo 7" "[alice]" "''alice''" "''wonderland''"]
    validateLogin_cases [of "memRepo 7" "[alice]" "''alice''" "''guess''"]
    validateLogin_cases [of "memRepo 7" "[alice]" "''bob''" "''guess''"]
    validateLogin_cases [of "brokenFindRepo 7" "[alice]" "''alice''" "''wonderland''"]
  by (simp add: memRepo_def brokenFindRepo_def alice_def)

text \<open>
  Claim C7. An unknown username and a wrong password for an existing user both
  make \<open>validateLogin\<close> return with the store exactly as it was, so no last-login
  timestamp changes. Whenever \<open>validateLogin\<close> returns no user the store is
  unchanged; whenever it returns a user, the supplied password matched and the
  store is the one \<^verbatim>\<open>UpdateLastLoginAt\<close> produced for that user's ID.
\<close>

theorem validateLogin_updates_only_on_match:
  "(snd (FindByUsername repo s n) = Some ErrNotFound \<longrightarrow>
      validateLogin repo s n pw = Return (s, None, None))
   \<and> (\<forall>u. FindByUsername repo s n = (Some u, None) \<and> Password u \<noteq> pw \<longrightarrow>
          validateLogin repo s n pw = Return (s, None, None))
   \<and> (\<forall>s' e. validateLogin repo s n pw = Return (s', None, e) \<longrightarrow> s' = s)
   \<and> (\<forall>s' u e. validateLogin repo s n pw = Return (s', Some u, e) \<longrightarrow>
          Password u = pw \<and> s' = fst (UpdateLastLoginAt repo s (ID u)))"
  using validateLogin_not_found [of repo s n pw] validateLogin_wrong_password [of repo s n _ pw]
    validateLogin_absent [of repo s n pw] validateLogin_user_returned [of repo s n pw]
  by blast

theorem validateLogin_updates_only_on_match_witness:
  "validateLogin (memRepo 7) [alice] ''alice'' ''guess'' = Return ([alice], None, None)
   \<and> validateLogin (memRepo 7) [alice] ''mallory'' ''wonderland'' = Return ([alice], None, None)
   \<and> LastLoginAt alice = None
   \<and> validateLogin (memRepo 7) [alice] ''alice'' ''wonderland''
       = Return ([alice\<lparr>LastLoginAt := Some 7\<rparr>], Some alice, None)"
  using validateLogin_updates_only_on_match [of "memRepo 7" "[alice]" "''alice''" "''guess''"]
    validateLogin_updates_only_on_match [of "memRepo 7" "[alice]" "''mallory''" "''wonderland''"]
    validateLogin_match [of "memRepo 7" "[alice]" "''alice''" alice "''wonderland''"]
  by (simp add: memRepo_def alice_def)

section \<open>The login handler\<close>




section \<open>The token check of the middleware\<close>

text \<open>
  Claim C2 as stated (every token whose subject claim is the empty string is
  rejected) fails: line 159 tests the claim against \<^verbatim>\<open>nil\<close>, and an empty string is
  not \<^verbatim>\<open>nil\<close>. A verified token whose subject is the empty string is accepted.
\<close>

theorem getToken_accepts_empty_subject:
  "map_of (Claims (bearer ''abc'' (Some (JString [])) True)) ''sub'' = Some (JString [])
   \<and> getToken (memRepo 7) [alice] (verified (bearer ''abc'' (Some (JString [])) True))
       = (Some (bearer ''abc'' (Some (JString [])) True), None)"
  by (simp add: getToken_def FromContext_def verified_def bearer_def)

text \<open>
  Claim C2, amended. \<open>getToken\<close> accepts a token exactly when the verifier left no
  error in the context, the token is present and marked valid (signature verified
  and not expired), and its subject claim is present, that is, not \<^verbatim>\<open>nil\<close>. A
  subject claim that is the empty string counts as present.
\<close>

theorem getToken_accepts_iff:
  "getToken ds s c = (Some t, None)
   \<longleftrightarrow> ctxErr c = None \<and> ctxToken c = Some t \<and> Valid t \<and> map_of (Claims t) ''sub'' \<noteq> None"
  by (cases "ctxToken c"; cases "CountAll ds s") (auto simp add: getToken_def FromContext_def Let_def)

theorem getToken_accepts_iff_witness:
  "getToken (memRepo 7) [] (verified (bearer ''xyz'' (Some (JString ''alice'')) True))
     = (Some (bearer ''xyz'' (Some (JString ''alice'')) True), None)
   \<and> getToken (memRepo 7) [alice] (verified (bearer ''xyz'' None True))
     \<noteq> (Some (bearer ''xyz'' None True), None)"
  using getToken_accepts_iff [of "memRepo 7" "[]" "verified (bearer ''xyz'' (Some (JString ''alice'')) True)"
      "bearer ''xyz'' (Some (JString ''alice'')) True"]
    getToken_accepts_iff [of "memRepo 7" "[alice]" "verified (bearer ''xyz'' None True)" "bearer ''xyz'' None True"]
  by (simp add: verified_def bearer_def)

text \<open>
  Claim C5. A request whose token passes the check is not rejected by it. When
  the token is absent or invalid and the store reports zero users (count 0, no
  error), the token check returns \<^verbatim>\<open>ErrFirstTime\<close> and the middleware answers 401
  with the body \<^verbatim>\<open>{"message": "no users created"}\<close>. For every other failure of the
  token check it returns "invalid authentication" and the middleware answers 401
  "Not authenticated". The token check has no other rejection.
\<close>

theorem Authenticator_rejections:
  "(ctxErr (Ctx r) = None \<and> (\<exists>t. ctxToken (Ctx r) = Some t \<and> Valid t \<and> map_of (Claims t) ''sub'' \<noteq> None)
      \<longrightarrow> snd (getToken ds s (Ctx r)) = None)
   \<and> (\<not> (ctxErr (Ctx r) = None \<and> (\<exists>t. ctxToken (Ctx r) = Some t \<and> Valid t \<and> map_of (Claims t) ''sub'' \<noteq> None))
        \<and> CountAll ds s = (0, None)
      \<longrightarrow> getToken ds s (Ctx r) = (None, Some ErrFirstTime)
          \<and> Authenticator ext ds s r
              = Return (Reject (RespondWithJSON 401 [(''message'', JString ''no users created'')])))
   \<and> (\<not> (ctxErr (Ctx r) = None \<and> (\<exists>t. ctxToken (Ctx r) = Some t \<and> Valid t \<and> map_of (Claims t) ''sub'' \<noteq> None))
        \<and> CountAll ds s \<noteq> (0, None)
      \<longrightarrow> getToken ds s (Ctx r) = (None, Some (ErrorsNew ''invalid authentication''))
          \<and> Authenticator ext ds s r = Return (Reject (RespondWithError 401 ''Not authenticated'')))"
proof (intro conjI impI)
  assume "ctxErr (Ctx r) = None \<and> (\<exists>t. ctxToken (Ctx r) = Some t \<and> Valid t \<and> map_of (Claims t) ''sub'' \<noteq> None)"
  then show "snd (getToken ds s (Ctx r)) = None"
    by (auto simp add: getToken_valid)
next
  assume a: "\<not> (ctxErr (Ctx r) = None \<and> (\<exists>t. ctxToken (Ctx r) = Some t \<and> Valid t \<and> map_of (Claims t) ''sub'' \<noteq> None))
        \<and> CountAll ds s = (0, None)"
  then show g: "getToken ds s (Ctx r) = (None, Some ErrFirstTime)"
    using getToken_invalid [of "Ctx r" ds s] by simp
  show "Authenticator ext ds s r
              = Return (Reject (RespondWithJSON 401 [(''message'', JString ''no users created'')]))"
    using Authenticator_rejected [OF g, of ext] by simp
next
  assume a: "\<not> (ctxErr (Ctx r) = None \<and> (\<exists>t. ctxToken (Ctx r) = Some t \<and> Valid t \<and> map_of (Claims t) ''sub'' \<noteq> None))
        \<and> CountAll ds s \<noteq> (0, None)"
  then show g: "getToken ds s (Ctx r) = (None, Some (ErrorsNew ''invalid authentication''))"
    using getToken_invalid [of "Ctx r" ds s] by simp
  show "Authenticator ext ds s r = Return (Reject (RespondWithError 401 ''Not authenticated''))"
    using Authenticator_rejected [OF g, of ext] by simp
qed

theorem Authenticator_rejections_witness:
  "Authenticator ext0 (memRepo 7) [] (protected noToken)
     = Return (Reject (RespondWithJSON 401 [(''message'', JString ''no users created'')]))
   \<and> Authenticator ext0 (memRepo 7) [alice] (protected noToken)
     = Return (Reject (RespondWithError 401 ''Not authenticated''))
   \<and> Authenticator ext0 (memRepo 7) [alice] (protected (verified (bearer ''xyz'' (Some (JString ''alice'')) False)))
     = Return (Reject (RespondWithError 401 ''Not authenticated''))
   \<and> snd (getToken (memRepo 7) [alice] (Ctx (protected (verified (bearer ''xyz'' (Some (JString ''alice'')) True))))) = None"
  using Authenticator_rejections [of "protected noToken" "memRepo 7" "[]" ext0]
    Authenticator_rejections [of "protected noToken" "memRepo 7" "[alice]" ext0]
    Authenticator_rejections [of "protected (verified (bearer ''xyz'' (Some (JString ''alice'')) False))" "memRepo 7" "[alice]" ext0]
    Authenticator_rejections [of "protected (verified (bearer ''xyz'' (Some (JString ''alice'')) True))" "memRepo 7" "[alice]" ext0]
  by (simp add: protected_def noToken_def verified_def bearer_def memRepo_def)

text \<open>
  Claim C10. When the token is absent or invalid and \<^verbatim>\<open>CountAll\<close> returns an error,
  the token check returns "invalid authentication" and the middleware answers
  401 "Not authenticated": neither the bootstrap signal nor a 500, and the
  store's error does not reach the client.
\<close>

theorem getToken_count_error_generic:
  "\<not> (ctxErr (Ctx r) = None \<and> (\<exists>t. ctxToken (Ctx r) = Some t \<and> Valid t \<and> map_of (Claims t) ''sub'' \<noteq> None))
   \<Longrightarrow> snd (CountAll ds s) = Some e
   \<Longrightarrow> getToken ds s (Ctx r) = (None, Some (ErrorsNew ''invalid authentication''))
       \<and> Authenticator ext ds s r = Return (Reject (RespondWithError 401 ''Not authenticated''))"
proof -
  assume inv: "\<not> (ctxErr (Ctx r) = None \<and> (\<exists>t. ctxToken (Ctx r) = Some t \<and> Valid t \<and> map_of (Claims t) ''sub'' \<noteq> None))"
    and cnt: "snd (CountAll ds s) = Some e"
  from cnt have "CountAll ds s \<noteq> (0, None)" by auto
  with getToken_invalid [OF inv, of ds s]
  have g: "getToken ds s (Ctx r) = (None, Some (ErrorsNew ''invalid authentication''))" by simp
  from g Authenticator_rejected [OF g, of ext] show ?thesis by simp
qed

theorem getToken_count_error_generic_witness:
  "\<not> (ctxErr (Ctx (protected noToken)) = None)
   \<and> CountAll (brokenCountRepo 7) [] = (0, Some (ErrorsNew ''database is locked''))
   \<and> getToken (brokenCountRepo 7) [] (Ctx (protected noToken))
       = (None, Some (ErrorsNew ''invalid authentication''))
   \<and> Authenticator ext0 (brokenCountRepo 7) [] (protected noToken)
       = Return (Reject (RespondWithError 401 ''Not authenticated''))"
proof -
  have inv: "\<not> (ctxErr (Ctx (protected noToken)) = None
                \<and> (\<exists>t. ctxToken (Ctx (protected noToken)) = Some t \<and> Valid t \<and> map_of (Claims t) ''sub'' \<noteq> None))"
    by (simp add: protected_def noToken_def)
  have cnt: "snd (CountAll (brokenCountRepo 7) []) = Some (ErrorsNew ''database is locked'')"
    by (simp add: brokenCountRepo_def)
  have "CountAll (brokenCountRepo 7) [] = (0, Some (ErrorsNew ''database is locked''))"
    by (simp add: brokenCountRepo_def)
  moreover have "\<not> (ctxErr (Ctx (protected noToken)) = None)"
    by (simp add: protected_def noToken_def)
  ultimately show ?thesis
    using getToken_count_error_generic [OF inv cnt, of ext0] by simp
qed

section \<open>The authenticator middleware after the token check\<close>




text \<open>
  Claim C9. There is a token that the token check accepts (no verification
  error, marked valid, subject claim present but not a string) at which the
  subject extraction of \<open>contextWithUser\<close> panics, and with it the middleware,
  instead of rejecting the request: the extraction is not total over the
  accepted tokens.
\<close>

theorem contextWithUser_not_total_on_accepted_tokens:
  "\<exists>t v. Valid t \<and> map_of (Claims t) ''sub'' = Some v \<and> (\<forall>n. v \<noteq> JString n)
     \<and> getToken ds s \<lparr>ctxToken = Some t, ctxErr = None, ctxUser = None\<rparr> = (Some t, None)
     \<and> contextWithUser \<lparr>ctxToken = Some t, ctxErr = None, ctxUser = None\<rparr> ds s (Claims t) = Panic
     \<and> Authenticator ext ds s \<lparr>Body = b, Ctx = \<lparr>ctxToken = Some t, ctxErr = None, ctxUser = None\<rparr>\<rparr> = Panic"
proof (intro exI conjI)
  let ?t = "\<lparr>Raw = ''abc'', Claims = [(''sub'', JNumber 7)], Valid = True\<rparr>"
  let ?c = "\<lparr>ctxToken = Some ?t, ctxErr = None, ctxUser = None\<rparr>"
  show "Valid ?t" by simp
  show sub: "map_of (Claims ?t) ''sub'' = Some (JNumber 7)" by simp
  show ns: "\<forall>n. JNumber 7 \<noteq> JString n" by simp
  show g: "getToken ds s ?c = (Some ?t, None)"
    by (rule getToken_valid) simp_all
  show p: "contextWithUser ?c ds s (Claims ?t) = Panic"
    by (rule contextWithUser_panics [OF sub ns])
  have g': "getToken ds s (Ctx \<lparr>Body = b, Ctx = ?c\<rparr>) = (Some ?t, None)"
    using g by simp
  show "Authenticator ext ds s \<lparr>Body = b, Ctx = ?c\<rparr> = Panic"
    using Authenticator_accepted [OF g', of ext] p by simp
qed

end
